theory Spec2Isabelle
  imports Main "HOL-Library.Word"
begin

section \<open>mboxctl: the control client of the mailbox daemon\<close>

text \<open>
  The development embeds \<^verbatim>\<open>src/mboxctl.c\<close>: the error taxonomy \<^verbatim>\<open>parse_error\<close>, the
  exchange routine \<^verbatim>\<open>send_dbus_msg\<close>, the six command handlers, \<^verbatim>\<open>parse_cmdline\<close> and
  \<^verbatim>\<open>main\<close>. The sd-bus library and the daemon are the environment: every library call
  the code makes is an entry of a trace, and the value each call hands back is read from
  a script, so that a theorem over all scripts covers every behaviour of bus and daemon.
\<close>

subsection \<open>The header \<^verbatim>\<open>mbox_dbus.h\<close>\<close>

type_synonym byte = "8 word"

text \<open>
  The header that defines the protocol constants is not among the sources, so the
  constants are a parameter of every function that uses one. They are C integer constant
  expressions of type \<^verbatim>\<open>int\<close>.
\<close>

record mbox_dbus_h =
  DBUS_C_PING :: int
  DBUS_C_STATUS :: int
  DBUS_C_RESET :: int
  DBUS_C_SUSPEND :: int
  DBUS_C_RESUME :: int
  DBUS_C_MODIFIED :: int
  DBUS_SUCCESS :: int
  E_DBUS_INTERNAL :: int
  E_DBUS_INVAL :: int
  E_DBUS_REJECTED :: int
  E_DBUS_HARDWARE :: int
  STATUS_ACTIVE :: int
  RESUME_NOT_MODIFIED :: int
  RESUME_FLASH_MODIFIED :: int

text \<open>
  The labels of the \<^verbatim>\<open>switch\<close> in \<^verbatim>\<open>parse_error\<close>, in the order of the source. C rejects
  a \<^verbatim>\<open>switch\<close> with two equal labels, so every header the file compiles against makes
  them pairwise distinct.
\<close>

definition status_labels :: "mbox_dbus_h \<Rightarrow> int list" where
  "status_labels h =
     [DBUS_SUCCESS h, E_DBUS_INTERNAL h, E_DBUS_INVAL h, E_DBUS_REJECTED h, E_DBUS_HARDWARE h]"

text \<open>
  Modelled from the spec: the header \<^verbatim>\<open>mbox_dbus.h\<close> is missing. The spec gives Ping = 0,
  Status = 1, Reset = 2, the status payload Active = 0 and the resume arguments 0 (not
  modified) and 1 (modified), and leaves the other numbers to the implementation; for
  those this instance counts on (Suspend = 3, Resume = 4, NotifyModified = 5, and the
  statuses Success = 0 up to HardwareError = 4 in the order of the taxonomy). It is the
  concrete header at which the general theorems are evaluated.
\<close>

definition mboxd_h :: mbox_dbus_h where
  "mboxd_h = \<lparr> DBUS_C_PING = 0, DBUS_C_STATUS = 1, DBUS_C_RESET = 2, DBUS_C_SUSPEND = 3,
     DBUS_C_RESUME = 4, DBUS_C_MODIFIED = 5,
     DBUS_SUCCESS = 0, E_DBUS_INTERNAL = 1, E_DBUS_INVAL = 2, E_DBUS_REJECTED = 3,
     E_DBUS_HARDWARE = 4,
     STATUS_ACTIVE = 0, RESUME_NOT_MODIFIED = 0, RESUME_FLASH_MODIFIED = 1 \<rparr>"

subsection \<open>The error taxonomy\<close>

text \<open>
  \<^verbatim>\<open>parse_error\<close> is a \<^verbatim>\<open>switch\<close> over \<^verbatim>\<open>error_val\<close> with five labels and a default. With
  distinct labels a \<^verbatim>\<open>switch\<close> is the chain of comparisons in the order of the labels.
\<close>

definition parse_error :: "mbox_dbus_h \<Rightarrow> int \<Rightarrow> string" where
  "parse_error h error_val =
     (if error_val = DBUS_SUCCESS h then ''Success''
      else if error_val = E_DBUS_INTERNAL h then ''Failed - Internal Error''
      else if error_val = E_DBUS_INVAL h then ''Failed - Invalid Command or Request''
      else if error_val = E_DBUS_REJECTED h then ''Failed - Request Rejected by Daemon''
      else if error_val = E_DBUS_HARDWARE h then ''Failed - BMC Hardware Error''
      else ''Failed - Unknown Error'')"

subsection \<open>Messages, the bus and the trace\<close>

text \<open>
  \<^verbatim>\<open>struct mbox_dbus_msg\<close>: the command or status byte, the declared number of argument
  bytes, and the argument buffer. A buffer is the list of its bytes, so its length is
  what was allocated; the null pointer of a zero-initialised message is the buffer of
  no bytes.
\<close>

record mbox_dbus_msg =
  cmd :: byte
  num_args :: nat
  args :: "byte list"

definition zero_msg :: mbox_dbus_msg where
  "zero_msg = \<lparr> cmd = 0, num_args = 0, args = [] \<rparr>"

text \<open>
  What the sd-bus library does during one run of \<^verbatim>\<open>send_dbus_msg\<close>: the return code of
  each of the six calls, and the reply the daemon produced (its status byte and its byte
  array), which the two read calls hand over when they succeed.
\<close>

record bus_script =
  new_method_call_rc :: int
  append_rc :: int
  append_array_rc :: int
  call_rc :: int
  read_rc :: int
  read_array_rc :: int
  reply_cmd :: byte
  reply_args :: "byte list"

text \<open>
  The library calls a run performs, in order. \<open>Bus_call c as\<close> is the transmission of the
  request with command byte \<open>c\<close> and arguments \<open>as\<close>; \<open>Message_unref live\<close> and
  \<open>Error_free\<close> are the releases at the label \<^verbatim>\<open>out\<close>, where \<open>live\<close> says whether the
  message pointer is set. \<open>Bus_unref\<close> stands for the release of the connection handle
  (\<^verbatim>\<open>sd_bus_unref\<close> and its variants).
\<close>

datatype sd_bus_op =
    Bus_default_system
  | Message_new_method_call
  | Message_append byte
  | Message_append_array "byte list"
  | Bus_call byte "byte list"
  | Message_read
  | Message_read_array
  | Error_free
  | Message_unref bool
  | Bus_unref

abbreviation nl :: string where
  "nl \<equiv> [CHR 0x0A]"

abbreviation tab :: string where
  "tab \<equiv> [CHR 0x09]"

subsection \<open>The exchange: \<^verbatim>\<open>send_dbus_msg\<close>\<close>

text \<open>
  The result of one exchange: the return code, the response message as the caller sees
  it afterwards, the text written to the error stream and the library calls made.
\<close>

record xfer =
  x_rc :: int
  x_resp :: mbox_dbus_msg
  x_err :: string
  x_trace :: "sd_bus_op list"

text \<open>
  The label \<^verbatim>\<open>out\<close>: free the error, drop both message references, return \<^verbatim>\<open>rc\<close>.
  \<open>m\<close> and \<open>n\<close> say whether the request and the reply message exist.
\<close>

definition send_out ::
  "int \<Rightarrow> mbox_dbus_msg \<Rightarrow> string \<Rightarrow> sd_bus_op list \<Rightarrow> bool \<Rightarrow> bool \<Rightarrow> xfer" where
  "send_out rc resp err ops m n =
     \<lparr> x_rc = rc, x_resp = resp, x_err = err,
       x_trace = ops @ [Error_free, Message_unref m, Message_unref n] \<rparr>"

text \<open>
  \<^verbatim>\<open>memcpy(dst, src, n)\<close> on buffers: the first \<open>n\<close> bytes of \<open>dst\<close> become the first \<open>n\<close>
  bytes of \<open>src\<close>. Outside either buffer the behaviour is undefined: \<open>None\<close>.
\<close>

definition memcpy :: "byte list \<Rightarrow> byte list \<Rightarrow> nat \<Rightarrow> byte list option" where
  "memcpy dst src n =
     (if n \<le> length dst \<and> n \<le> length src then Some (take n src @ drop n dst) else None)"

text \<open>
  \<^verbatim>\<open>send_dbus_msg\<close>, branch by branch. \<open>strerror\<close> is the C library's table of error
  texts. Appending the argument array reads \<^verbatim>\<open>msg->num_args\<close> bytes of \<^verbatim>\<open>msg->args\<close>, and
  the final copy writes \<^verbatim>\<open>resp->num_args\<close> bytes of \<^verbatim>\<open>resp->args\<close>; a buffer shorter than
  that makes the behaviour undefined, and the result is \<open>None\<close>.
\<close>

definition send_dbus_msg ::
  "(int \<Rightarrow> string) \<Rightarrow> mbox_dbus_h \<Rightarrow> bus_script \<Rightarrow> mbox_dbus_msg \<Rightarrow> mbox_dbus_msg
     \<Rightarrow> xfer option" where
  "send_dbus_msg strerror h s msg resp =
     (if new_method_call_rc s < 0 then
        Some (send_out (new_method_call_rc s) resp
          (''Failed to init method call: '' @ strerror (- new_method_call_rc s) @ nl)
          [Message_new_method_call] False False)
      else if append_rc s < 0 then
        Some (send_out (append_rc s) resp
          (''Failed to add cmd to message: '' @ strerror (- append_rc s) @ nl)
          [Message_new_method_call, Message_append (cmd msg)] True False)
      else if length (args msg) < num_args msg then None
      else if append_array_rc s < 0 then
        Some (send_out (append_array_rc s) resp
          (''Failed to add args to message: '' @ strerror (- append_array_rc s) @ nl)
          [Message_new_method_call, Message_append (cmd msg),
           Message_append_array (take (num_args msg) (args msg))] True False)
      else if call_rc s < 0 then
        Some (send_out (call_rc s) resp
          (''Failed to post message: '' @ strerror (- call_rc s) @ nl)
          [Message_new_method_call, Message_append (cmd msg),
           Message_append_array (take (num_args msg) (args msg)),
           Bus_call (cmd msg) (take (num_args msg) (args msg))] True False)
      else if read_rc s < 0 then
        Some (send_out (read_rc s) resp
          (''Failed to read response code: '' @ strerror (- read_rc s) @ nl)
          [Message_new_method_call, Message_append (cmd msg),
           Message_append_array (take (num_args msg) (args msg)),
           Bus_call (cmd msg) (take (num_args msg) (args msg)), Message_read] True True)
      else if read_array_rc s < 0 then
        Some (send_out (read_array_rc s) (resp\<lparr>cmd := reply_cmd s\<rparr>)
          (''Failed to read response args: '' @ strerror (- read_array_rc s) @ nl)
          [Message_new_method_call, Message_append (cmd msg),
           Message_append_array (take (num_args msg) (args msg)),
           Bus_call (cmd msg) (take (num_args msg) (args msg)), Message_read,
           Message_read_array] True True)
      else if length (reply_args s) < num_args resp then
        Some (send_out (- E_DBUS_INTERNAL h) (resp\<lparr>cmd := reply_cmd s\<rparr>)
          (''Command returned insufficient response args'' @ nl)
          [Message_new_method_call, Message_append (cmd msg),
           Message_append_array (take (num_args msg) (args msg)),
           Bus_call (cmd msg) (take (num_args msg) (args msg)), Message_read,
           Message_read_array] True True)
      else
        (case memcpy (args resp) (reply_args s) (num_args resp) of
           None \<Rightarrow> None
         | Some buf \<Rightarrow>
             Some (send_out 0 (resp\<lparr>cmd := reply_cmd s, args := buf\<rparr>) []
               [Message_new_method_call, Message_append (cmd msg),
                Message_append_array (take (num_args msg) (args msg)),
                Bus_call (cmd msg) (take (num_args msg) (args msg)), Message_read,
                Message_read_array] True True)))"

subsection \<open>The command handlers\<close>

text \<open>
  What a handler, and in the end the process, has done: the value of \<^verbatim>\<open>rc\<close>, the text on
  the output and on the error stream, and the library calls. The result of a handler is
  \<open>None\<close> where that of its exchange is. \<^verbatim>\<open>calloc\<close> is taken to succeed and hands out zeroed bytes.
\<close>

record run =
  r_rc :: int
  r_out :: string
  r_err :: string
  r_trace :: "sd_bus_op list"

text \<open>
  The statement \<^verbatim>\<open>rc = -resp.cmd\<close>: the byte is promoted to \<^verbatim>\<open>int\<close> and negated, a value
  between \<open>-255\<close> and \<open>0\<close>.
\<close>

definition neg_cmd :: "mbox_dbus_msg \<Rightarrow> int" where
  "neg_cmd resp = - uint (cmd resp)"

text \<open>
  Ping, reset, suspend and flash-modified differ in the command byte and in the two
  texts only: \<open>simple_cmd\<close> is their common body, with \<open>c\<close> the command constant, \<open>what\<close>
  the name in the failure text and \<open>label\<close> the prefix of the outcome line.
\<close>

definition simple_cmd ::
  "(int \<Rightarrow> string) \<Rightarrow> mbox_dbus_h \<Rightarrow> bus_script \<Rightarrow> int \<Rightarrow> string \<Rightarrow> string \<Rightarrow> run option" where
  "simple_cmd strerror h s c what label =
     (case send_dbus_msg strerror h s (zero_msg\<lparr>cmd := word_of_int c\<rparr>) zero_msg of
        None \<Rightarrow> None
      | Some x \<Rightarrow>
          if x_rc x < 0 then
            Some \<lparr> r_rc = x_rc x, r_out = [],
                   r_err = x_err x @ ''Failed to send '' @ what @ '' command'' @ nl,
                   r_trace = x_trace x \<rparr>
          else
            Some \<lparr> r_rc = neg_cmd (x_resp x),
                   r_out = label @ '': '' @ parse_error h (uint (cmd (x_resp x))) @ nl,
                   r_err = x_err x, r_trace = x_trace x \<rparr>)"

definition handle_cmd_ping :: "(int \<Rightarrow> string) \<Rightarrow> mbox_dbus_h \<Rightarrow> bus_script \<Rightarrow> run option" where
  "handle_cmd_ping strerror h s = simple_cmd strerror h s (DBUS_C_PING h) ''ping'' ''Ping''"

definition handle_cmd_reset :: "(int \<Rightarrow> string) \<Rightarrow> mbox_dbus_h \<Rightarrow> bus_script \<Rightarrow> run option" where
  "handle_cmd_reset strerror h s = simple_cmd strerror h s (DBUS_C_RESET h) ''reset'' ''Reset''"

definition handle_cmd_suspend :: "(int \<Rightarrow> string) \<Rightarrow> mbox_dbus_h \<Rightarrow> bus_script \<Rightarrow> run option" where
  "handle_cmd_suspend strerror h s =
     simple_cmd strerror h s (DBUS_C_SUSPEND h) ''suspend'' ''Suspend''"

definition handle_cmd_modified :: "(int \<Rightarrow> string) \<Rightarrow> mbox_dbus_h \<Rightarrow> bus_script \<Rightarrow> run option" where
  "handle_cmd_modified strerror h s =
     simple_cmd strerror h s (DBUS_C_MODIFIED h) ''flash modified'' ''Flash Modified''"

text \<open>
  The status handler expects one response byte in a buffer of one byte, stops when the
  daemon's status is not \<^verbatim>\<open>DBUS_SUCCESS\<close>, and otherwise compares the byte with
  \<^verbatim>\<open>STATUS_ACTIVE\<close>. Reading \<^verbatim>\<open>resp.args[0]\<close> of a buffer without bytes is \<open>None\<close>.
\<close>

definition handle_cmd_status :: "(int \<Rightarrow> string) \<Rightarrow> mbox_dbus_h \<Rightarrow> bus_script \<Rightarrow> run option" where
  "handle_cmd_status strerror h s =
     (case send_dbus_msg strerror h s (zero_msg\<lparr>cmd := word_of_int (DBUS_C_STATUS h)\<rparr>)
             (zero_msg\<lparr>num_args := 1, args := [0]\<rparr>) of
        None \<Rightarrow> None
      | Some x \<Rightarrow>
          if x_rc x < 0 then
            Some \<lparr> r_rc = x_rc x, r_out = [],
                   r_err = x_err x @ ''Failed to send status command'' @ nl,
                   r_trace = x_trace x \<rparr>
          else if uint (cmd (x_resp x)) \<noteq> DBUS_SUCCESS h then
            Some \<lparr> r_rc = neg_cmd (x_resp x), r_out = [],
                   r_err = x_err x @ ''Status command failed'' @ nl,
                   r_trace = x_trace x \<rparr>
          else
            (case args (x_resp x) of
               [] \<Rightarrow> None
             | b # _ \<Rightarrow>
                 Some \<lparr> r_rc = neg_cmd (x_resp x),
                        r_out = ''Daemon Status: ''
                          @ (if uint b = STATUS_ACTIVE h then ''Active'' else ''Suspended'') @ nl,
                        r_err = x_err x, r_trace = x_trace x \<rparr>))"

text \<open>
  \<^verbatim>\<open>*arg\<close> of a C string: its first character, the terminating NUL when it is empty.
\<close>

fun first_char :: "string \<Rightarrow> char" where
  "first_char [] = CHR 0x00"
| "first_char (c # _) = c"

text \<open>
  The resume handler. The argument is \<open>None\<close> for the null pointer. The guard is the
  source's: \<^verbatim>\<open>!arg || *arg != '0' || *arg != '1'\<close>.
\<close>

definition handle_cmd_resume ::
  "(int \<Rightarrow> string) \<Rightarrow> mbox_dbus_h \<Rightarrow> bus_script \<Rightarrow> string option \<Rightarrow> run option" where
  "handle_cmd_resume strerror h s arg =
     (case arg of
        None \<Rightarrow> Some \<lparr> r_rc = - E_DBUS_INVAL h, r_out = [], r_err = [], r_trace = [] \<rparr>
      | Some a \<Rightarrow>
          if first_char a \<noteq> CHR ''0'' \<or> first_char a \<noteq> CHR ''1'' then
            Some \<lparr> r_rc = - E_DBUS_INVAL h, r_out = [], r_err = [], r_trace = [] \<rparr>
          else
            (case send_dbus_msg strerror h s
                    (zero_msg\<lparr>cmd := word_of_int (DBUS_C_RESUME h), num_args := 1,
                       args := [word_of_int (if first_char a = CHR ''1''
                                             then RESUME_FLASH_MODIFIED h
                                             else RESUME_NOT_MODIFIED h)]\<rparr>)
                    zero_msg of
               None \<Rightarrow> None
             | Some x \<Rightarrow>
                 if x_rc x < 0 then
                   Some \<lparr> r_rc = x_rc x, r_out = [],
                          r_err = x_err x @ ''Failed to send resume command'' @ nl,
                          r_trace = x_trace x \<rparr>
                 else
                   Some \<lparr> r_rc = neg_cmd (x_resp x),
                          r_out = ''Resume: '' @ parse_error h (uint (cmd (x_resp x))) @ nl,
                          r_err = x_err x, r_trace = x_trace x \<rparr>))"

subsection \<open>The command line and \<^verbatim>\<open>main\<close>\<close>

text \<open>
  The text of the macro \<^verbatim>\<open>USAGE\<close>, with the program's name filled in.
\<close>

definition USAGE :: "string \<Rightarrow> string" where
  "USAGE name =
     ''Usage: '' @ name @ '' <command> [args]'' @ nl @ nl
     @ tab @ ''Commands:'' @ nl
     @ tab @ tab @ ''--ping'' @ tab @ tab @ tab @ ''- ping the daemon (args: 0)'' @ nl
     @ tab @ tab @ ''--status'' @ tab @ tab @ ''- check status of the daemon (args: 0)'' @ nl
     @ tab @ tab @ ''--reset'' @ tab @ tab @ tab
       @ ''- hard reset the daemon state (args: 0)'' @ nl
     @ tab @ tab @ ''--point-to-flash'' @ tab
       @ ''- point the lpc mapping back to flash (args: 0)'' @ nl
     @ tab @ tab @ ''--suspend'' @ tab @ tab
       @ ''- suspend the daemon to inhibit flash accesses (args: 0)'' @ nl
     @ tab @ tab @ ''--resume'' @ tab @ tab @ ''- resume the daemon (args: 1)'' @ nl
     @ tab @ tab @ tab @ ''arg[0]: whether flash was modified (0 - no | 1 - yes)'' @ nl
     @ tab @ tab @ ''--flash-modified'' @ tab
       @ ''- tell the daemon to discard its cache (args: 0)'' @ nl"

text \<open>
  \<^verbatim>\<open>getopt_long\<close> is the C library's: the command line reaches the program as the list of
  the values it returns, each with the \<^verbatim>\<open>optarg\<close> it sets. \<open>switch_opt\<close> is the body of
  the \<^verbatim>\<open>switch\<close> for one option: what the branch does, and whether the process ends
  there. \<^verbatim>\<open>usage\<close> prints the text and calls \<^verbatim>\<open>exit(0)\<close>, so in the branches for \<^verbatim>\<open>'h'\<close>
  and for an unknown option the assignment to \<^verbatim>\<open>rc\<close> after it is never reached.
\<close>

definition switch_opt ::
  "(int \<Rightarrow> string) \<Rightarrow> mbox_dbus_h \<Rightarrow> bus_script \<Rightarrow> string \<Rightarrow> char \<Rightarrow> string option
     \<Rightarrow> (bool \<times> run) option" where
  "switch_opt strerror h s name opt optarg =
     (if opt = CHR ''p'' then map_option (Pair False) (handle_cmd_ping strerror h s)
      else if opt = CHR ''s'' then map_option (Pair False) (handle_cmd_status strerror h s)
      else if opt = CHR ''r'' \<or> opt = CHR ''f'' then
        map_option (Pair False) (handle_cmd_reset strerror h s)
      else if opt = CHR ''u'' then map_option (Pair False) (handle_cmd_suspend strerror h s)
      else if opt = CHR ''e'' then
        map_option (Pair False) (handle_cmd_resume strerror h s optarg)
      else if opt = CHR ''m'' then map_option (Pair False) (handle_cmd_modified strerror h s)
      else if opt = CHR ''v'' then
        Some (False, \<lparr> r_rc = 0, r_out = ''MBOX Control V1.00'' @ nl, r_err = [], r_trace = [] \<rparr>)
      else
        Some (True, \<lparr> r_rc = 0, r_out = USAGE name, r_err = [], r_trace = [] \<rparr>))"

text \<open>
  One more step of a run: the new value of \<^verbatim>\<open>rc\<close>, the streams and the trace extended.
\<close>

definition and_then :: "run \<Rightarrow> run \<Rightarrow> run" where
  "and_then acc r =
     \<lparr> r_rc = r_rc r, r_out = r_out acc @ r_out r, r_err = r_err acc @ r_err r,
       r_trace = r_trace acc @ r_trace r \<rparr>"

text \<open>
  How a function that may call \<^verbatim>\<open>exit\<close> ends: it returns, or the process has exited. In
  both cases \<open>r_rc\<close> is the status.
\<close>

datatype ending = Returned run | Exited run

text \<open>
  The loop of \<^verbatim>\<open>parse_cmdline\<close> over the options. \<open>ss i\<close> is the behaviour of the bus while
  option number \<open>i\<close> is handled.
\<close>

fun getopt_loop ::
  "(int \<Rightarrow> string) \<Rightarrow> mbox_dbus_h \<Rightarrow> (nat \<Rightarrow> bus_script) \<Rightarrow> string \<Rightarrow> nat \<Rightarrow> run
     \<Rightarrow> (char \<times> string option) list \<Rightarrow> ending option" where
  "getopt_loop strerror h ss name i acc [] = Some (Returned acc)"
| "getopt_loop strerror h ss name i acc ((opt, optarg) # rest) =
     (case switch_opt strerror h (ss i) name opt optarg of
        None \<Rightarrow> None
      | Some (exits, r) \<Rightarrow>
          if exits then Some (Exited (and_then acc r))
          else getopt_loop strerror h ss name (Suc i) (and_then acc r) rest)"

text \<open>
  \<^verbatim>\<open>parse_cmdline\<close> starts with \<^verbatim>\<open>rc = -1\<close>; \<open>sofar\<close> is what the process has written and
  called so far.
\<close>

definition parse_cmdline ::
  "(int \<Rightarrow> string) \<Rightarrow> mbox_dbus_h \<Rightarrow> (nat \<Rightarrow> bus_script) \<Rightarrow> string \<Rightarrow> run
     \<Rightarrow> (char \<times> string option) list \<Rightarrow> ending option" where
  "parse_cmdline strerror h ss name sofar opts =
     getopt_loop strerror h ss name 0 (sofar\<lparr>r_rc := - 1\<rparr>) opts"

text \<open>
  \<^verbatim>\<open>init_dbus_dev\<close> asks the library for the system bus; \<open>open_rc\<close> is what
  \<^verbatim>\<open>sd_bus_default_system\<close> returns.
\<close>

definition init_dbus_dev :: "(int \<Rightarrow> string) \<Rightarrow> int \<Rightarrow> run" where
  "init_dbus_dev strerror open_rc =
     \<lparr> r_rc = open_rc, r_out = [],
       r_err = (if open_rc < 0
                then ''Failed to connect to the system bus: '' @ strerror (- open_rc) @ nl
                else []),
       r_trace = [Bus_default_system] \<rparr>"

text \<open>
  \<^verbatim>\<open>main\<close>. The result is the finished process: \<open>r_rc\<close> is the value \<^verbatim>\<open>main\<close> returns, or
  the argument of \<^verbatim>\<open>exit\<close>, as an \<^verbatim>\<open>int\<close> (the parent process sees its low eight bits).
\<close>

definition main ::
  "(int \<Rightarrow> string) \<Rightarrow> mbox_dbus_h \<Rightarrow> int \<Rightarrow> (nat \<Rightarrow> bus_script) \<Rightarrow> string
     \<Rightarrow> (char \<times> string option) list \<Rightarrow> run option" where
  "main strerror h open_rc ss name opts =
     (let i = init_dbus_dev strerror open_rc in
      if r_rc i < 0 then Some (i\<lparr>r_err := r_err i @ ''Failed to init dbus'' @ nl\<rparr>)
      else
        (case parse_cmdline strerror h ss name i opts of
           None \<Rightarrow> None
         | Some (Returned r) \<Rightarrow> Some r
         | Some (Exited r) \<Rightarrow> Some r))"

text \<open>
  The claims speak of the connection handle being released, and of requests being sent.
  The handle is held from a successful \<open>Bus_default_system\<close> on and released by
  \<open>Bus_unref\<close>; a request is sent by a \<open>Bus_call\<close>.
\<close>

fun is_call :: "sd_bus_op \<Rightarrow> bool" where
  "is_call (Bus_call c as) = True"
| "is_call _ = False"

definition sends_request :: "sd_bus_op list \<Rightarrow> bool" where
  "sends_request t = (filter is_call t \<noteq> [])"

definition releases_bus :: "sd_bus_op list \<Rightarrow> bool" where
  "releases_bus t = (Bus_unref \<in> set t)"

subsection \<open>Vocabulary of the statements\<close>

text \<open>
  Every library call of an exchange succeeds: none returns a negative code, so the
  request is delivered and the reply is read.
\<close>

definition bus_ok :: "bus_script \<Rightarrow> bool" where
  "bus_ok s =
     (0 \<le> new_method_call_rc s \<and> 0 \<le> append_rc s \<and> 0 \<le> append_array_rc s
      \<and> 0 \<le> call_rc s \<and> 0 \<le> read_rc s \<and> 0 \<le> read_array_rc s)"

text \<open>
  A bus on which every call succeeds and the daemon replies with status byte \<open>c\<close> and
  argument bytes \<open>as\<close>: the script of the concrete runs below.
\<close>

definition replying :: "byte \<Rightarrow> byte list \<Rightarrow> bus_script" where
  "replying c as =
     \<lparr> new_method_call_rc = 0, append_rc = 0, append_array_rc = 0, call_rc = 1, read_rc = 1,
       read_array_rc = 1, reply_cmd = c, reply_args = as \<rparr>"

text \<open>
  What the handlers of this file do on the bus: any call but opening or releasing the
  connection, and a transmission only of a request without argument bytes.
\<close>

fun exchange_op :: "sd_bus_op \<Rightarrow> bool" where
  "exchange_op (Bus_call c as) = (as = [])"
| "exchange_op Bus_default_system = False"
| "exchange_op Bus_unref = False"
| "exchange_op _ = True"

text \<open>The finished run of an ending, however it ended.\<close>

fun run_of :: "ending \<Rightarrow> run" where
  "run_of (Returned r) = r"
| "run_of (Exited r) = r"

text \<open>
  The options of the commands that take no argument, "(args: 0)" in the usage text: ping,
  status, reset, point-to-flash, suspend and flash-modified. For them, the number of
  response bytes the handler declares (\<^verbatim>\<open>resp.num_args\<close>: one for status, none
  otherwise).
\<close>

definition no_arg_command :: "char \<Rightarrow> bool" where
  "no_arg_command opt = (opt \<in> {CHR ''p'', CHR ''s'', CHR ''r'', CHR ''f'', CHR ''u'', CHR ''m''})"

definition expected_args :: "char \<Rightarrow> nat" where
  "expected_args opt = (if opt = CHR ''s'' then 1 else 0)"

text \<open>
  The options whose branch of the \<^verbatim>\<open>switch\<close> ends in \<^verbatim>\<open>break\<close>, so that the loop goes on
  to the next option: every value the option table yields but \<^verbatim>\<open>'h'\<close>.
\<close>

definition continues :: "char \<Rightarrow> bool" where
  "continues opt =
     (opt \<in> {CHR ''p'', CHR ''s'', CHR ''r'', CHR ''f'', CHR ''u'', CHR ''e'', CHR ''m'', CHR ''v''})"

section \<open>Properties\<close>

subsection \<open>The exchange\<close>

lemma bus_ok_replying: "bus_ok (replying c as)"
  by (simp add: bus_ok_def replying_def)

text \<open>
  The three ways an exchange ends when the buffers are as large as declared: complete,
  with the reply's first bytes copied; cut off by the length check; or stopped by the
  first library call that fails.
\<close>

lemma send_dbus_msg_complete:
  assumes "bus_ok s" and "num_args msg \<le> length (args msg)"
    and "num_args resp \<le> length (reply_args s)" and "num_args resp \<le> length (args resp)"
  shows "send_dbus_msg strerror h s msg resp =
    Some (send_out 0
      (resp\<lparr>cmd := reply_cmd s,
         args := take (num_args resp) (reply_args s) @ drop (num_args resp) (args resp)\<rparr>) []
      [Message_new_method_call, Message_append (cmd msg),
       Message_append_array (take (num_args msg) (args msg)),
       Bus_call (cmd msg) (take (num_args msg) (args msg)), Message_read,
       Message_read_array] True True)"
  using assms by (simp add: send_dbus_msg_def bus_ok_def memcpy_def)

lemma send_dbus_msg_short:
  assumes "bus_ok s" and "num_args msg \<le> length (args msg)"
    and "length (reply_args s) < num_args resp"
  shows "send_dbus_msg strerror h s msg resp =
    Some (send_out (- E_DBUS_INTERNAL h) (resp\<lparr>cmd := reply_cmd s\<rparr>)
      (''Command returned insufficient response args'' @ nl)
      [Message_new_method_call, Message_append (cmd msg),
       Message_append_array (take (num_args msg) (args msg)),
       Bus_call (cmd msg) (take (num_args msg) (args msg)), Message_read,
       Message_read_array] True True)"
  using assms by (simp add: send_dbus_msg_def bus_ok_def)

lemma send_dbus_msg_failed:
  assumes "\<not> bus_ok s" and "num_args msg \<le> length (args msg)"
  shows "\<exists>x. send_dbus_msg strerror h s msg resp = Some x \<and> x_rc x < 0"
  using assms by (auto simp: send_dbus_msg_def bus_ok_def send_out_def)

text \<open>With buffers as large as declared the exchange is defined, and leaves their size alone.\<close>

lemma send_dbus_msg_returns:
  assumes "num_args msg \<le> length (args msg)" and "num_args resp \<le> length (args resp)"
  shows "\<exists>x. send_dbus_msg strerror h s msg resp = Some x"
  using assms by (auto simp: send_dbus_msg_def memcpy_def)

lemma send_dbus_msg_buffer:
  assumes "send_dbus_msg strerror h s msg resp = Some x"
  shows "length (args (x_resp x)) = length (args resp)"
  using assms
  by (auto simp: send_dbus_msg_def memcpy_def send_out_def split: if_splits option.splits)

lemma send_dbus_msg_trace:
  assumes "send_dbus_msg strerror h s msg resp = Some x" and "num_args msg = 0"
  shows "list_all exchange_op (x_trace x)"
  using assms
  by (auto simp: send_dbus_msg_def send_out_def split: if_splits option.splits)

subsection \<open>The handlers\<close>

text \<open>
  The guard of the resume handler holds for every argument: a character differs from
  \<^verbatim>\<open>'0'\<close> or from \<^verbatim>\<open>'1'\<close>.
\<close>

lemma resume_inval:
  "handle_cmd_resume strerror h s arg =
     Some \<lparr> r_rc = - E_DBUS_INVAL h, r_out = [], r_err = [], r_trace = [] \<rparr>"
proof (cases arg)
  case None
  then show ?thesis by (simp add: handle_cmd_resume_def)
next
  case (Some a)
  have "first_char a \<noteq> CHR ''0'' \<or> first_char a \<noteq> CHR ''1''"
    by (cases "first_char a = CHR ''0''") simp_all
  with Some show ?thesis by (simp add: handle_cmd_resume_def)
qed

lemma simple_cmd_complete:
  assumes "bus_ok s"
  shows "simple_cmd strerror h s c what label =
    Some \<lparr> r_rc = - uint (reply_cmd s),
           r_out = label @ '': '' @ parse_error h (uint (reply_cmd s)) @ nl,
           r_err = [],
           r_trace = [Message_new_method_call, Message_append (word_of_int c),
             Message_append_array [], Bus_call (word_of_int c) [], Message_read,
             Message_read_array, Error_free, Message_unref True, Message_unref True] \<rparr>"
  using send_dbus_msg_complete [OF assms, of "zero_msg\<lparr>cmd := word_of_int c\<rparr>" zero_msg strerror h]
  by (simp add: simple_cmd_def zero_msg_def send_out_def neg_cmd_def)

lemma simple_cmd_failed:
  assumes "\<not> bus_ok s"
  shows "\<exists>r. simple_cmd strerror h s c what label = Some r \<and> r_rc r < 0 \<and> r_out r = []"
  using send_dbus_msg_failed [OF assms, of "zero_msg\<lparr>cmd := word_of_int c\<rparr>" strerror h zero_msg]
  by (auto simp: simple_cmd_def zero_msg_def)

lemma simple_cmd_returns:
  "\<exists>r. simple_cmd strerror h s c what label = Some r \<and> list_all exchange_op (r_trace r)"
proof -
  obtain x where x: "send_dbus_msg strerror h s (zero_msg\<lparr>cmd := word_of_int c\<rparr>) zero_msg = Some x"
    using send_dbus_msg_returns [of "zero_msg\<lparr>cmd := word_of_int c\<rparr>" zero_msg strerror h s]
    by (auto simp: zero_msg_def)
  from send_dbus_msg_trace [OF x] have "list_all exchange_op (x_trace x)"
    by (simp add: zero_msg_def)
  with x show ?thesis by (simp add: simple_cmd_def)
qed

lemma status_complete:
  assumes "bus_ok s" and "reply_args s = b # bs" and "uint (reply_cmd s) = DBUS_SUCCESS h"
  shows "handle_cmd_status strerror h s =
    Some \<lparr> r_rc = - uint (reply_cmd s),
           r_out = ''Daemon Status: ''
             @ (if uint b = STATUS_ACTIVE h then ''Active'' else ''Suspended'') @ nl,
           r_err = [],
           r_trace = [Message_new_method_call, Message_append (word_of_int (DBUS_C_STATUS h)),
             Message_append_array [], Bus_call (word_of_int (DBUS_C_STATUS h)) [], Message_read,
             Message_read_array, Error_free, Message_unref True, Message_unref True] \<rparr>"
  using send_dbus_msg_complete [OF assms(1),
      of "zero_msg\<lparr>cmd := word_of_int (DBUS_C_STATUS h)\<rparr>" "zero_msg\<lparr>num_args := 1, args := [0]\<rparr>"
         strerror h] assms(2,3)
  by (simp add: handle_cmd_status_def zero_msg_def send_out_def neg_cmd_def)

lemma status_daemon_error:
  assumes "bus_ok s" and "reply_args s \<noteq> []" and "uint (reply_cmd s) \<noteq> DBUS_SUCCESS h"
  shows "handle_cmd_status strerror h s =
    Some \<lparr> r_rc = - uint (reply_cmd s), r_out = [],
           r_err = ''Status command failed'' @ nl,
           r_trace = [Message_new_method_call, Message_append (word_of_int (DBUS_C_STATUS h)),
             Message_append_array [], Bus_call (word_of_int (DBUS_C_STATUS h)) [], Message_read,
             Message_read_array, Error_free, Message_unref True, Message_unref True] \<rparr>"
proof -
  from assms(2) have "1 \<le> length (reply_args s)" by (cases "reply_args s") simp_all
  with send_dbus_msg_complete [OF assms(1),
      of "zero_msg\<lparr>cmd := word_of_int (DBUS_C_STATUS h)\<rparr>" "zero_msg\<lparr>num_args := 1, args := [0]\<rparr>"
         strerror h] assms(3)
  show ?thesis
    by (simp add: handle_cmd_status_def zero_msg_def send_out_def neg_cmd_def)
qed

lemma status_short:
  assumes "bus_ok s" and "reply_args s = []" and "0 < E_DBUS_INTERNAL h"
  shows "handle_cmd_status strerror h s =
    Some \<lparr> r_rc = - E_DBUS_INTERNAL h, r_out = [],
           r_err = ''Command returned insufficient response args'' @ nl
             @ ''Failed to send status command'' @ nl,
           r_trace = [Message_new_method_call, Message_append (word_of_int (DBUS_C_STATUS h)),
             Message_append_array [], Bus_call (word_of_int (DBUS_C_STATUS h)) [], Message_read,
             Message_read_array, Error_free, Message_unref True, Message_unref True] \<rparr>"
  using send_dbus_msg_short [OF assms(1),
      of "zero_msg\<lparr>cmd := word_of_int (DBUS_C_STATUS h)\<rparr>" "zero_msg\<lparr>num_args := 1, args := [0]\<rparr>"
         strerror h] assms(2,3)
  by (simp add: handle_cmd_status_def zero_msg_def send_out_def)

lemma status_failed:
  assumes "\<not> bus_ok s"
  shows "\<exists>r. handle_cmd_status strerror h s = Some r \<and> r_rc r < 0 \<and> r_out r = []"
  using send_dbus_msg_failed [OF assms, of "zero_msg\<lparr>cmd := word_of_int (DBUS_C_STATUS h)\<rparr>"
      strerror h "zero_msg\<lparr>num_args := 1, args := [0]\<rparr>"]
  by (auto simp: handle_cmd_status_def zero_msg_def)

lemma status_returns:
  "\<exists>r. handle_cmd_status strerror h s = Some r \<and> list_all exchange_op (r_trace r)"
proof -
  let ?msg = "zero_msg\<lparr>cmd := word_of_int (DBUS_C_STATUS h)\<rparr>"
  let ?resp = "zero_msg\<lparr>num_args := 1, args := [0]\<rparr>"
  obtain x where x: "send_dbus_msg strerror h s ?msg ?resp = Some x"
    using send_dbus_msg_returns [of ?msg ?resp strerror h s] by (auto simp: zero_msg_def)
  from send_dbus_msg_trace [OF x] have t: "list_all exchange_op (x_trace x)"
    by (simp add: zero_msg_def)
  from send_dbus_msg_buffer [OF x] have "length (args (x_resp x)) = 1"
    by (simp add: zero_msg_def)
  then obtain b where "args (x_resp x) = [b]"
    by (cases "args (x_resp x)") auto
  with x t show ?thesis by (simp add: handle_cmd_status_def)
qed

subsection \<open>The option loop and \<^verbatim>\<open>main\<close>\<close>

text \<open>
  Every branch of the \<^verbatim>\<open>switch\<close> is defined, and so are the loop and \<^verbatim>\<open>main\<close>; their
  trace is the opening of the bus followed by operations of exchanges only.
\<close>

lemma switch_opt_returns:
  "\<exists>e r. switch_opt strerror h s name opt optarg = Some (e, r) \<and> list_all exchange_op (r_trace r)"
proof -
  have simple: "\<exists>e r. map_option (Pair False) (simple_cmd strerror h s c w l) = Some (e, r)
      \<and> list_all exchange_op (r_trace r)" for c w l
    using simple_cmd_returns [of strerror h s c w l] by auto
  have status: "\<exists>e r. map_option (Pair False) (handle_cmd_status strerror h s) = Some (e, r)
      \<and> list_all exchange_op (r_trace r)"
    using status_returns [of strerror h s] by auto
  have resume: "\<exists>e r. map_option (Pair False) (handle_cmd_resume strerror h s optarg) = Some (e, r)
      \<and> list_all exchange_op (r_trace r)"
    by (auto simp: resume_inval)
  have plain: "\<exists>e r. Some (b, \<lparr> r_rc = 0, r_out = t, r_err = [], r_trace = [] \<rparr>) = Some (e, r)
      \<and> list_all exchange_op (r_trace r)" for b t
    by auto
  consider "opt = CHR ''p''" | "opt = CHR ''s''" | "opt = CHR ''r'' \<or> opt = CHR ''f''"
    | "opt = CHR ''u''" | "opt = CHR ''e''" | "opt = CHR ''m''" | "opt = CHR ''v''"
    | "opt \<notin> {CHR ''p'', CHR ''s'', CHR ''r'', CHR ''f'', CHR ''u'', CHR ''e'', CHR ''m'', CHR ''v''}"
    by blast
  then show ?thesis
  proof cases
    case 1
    then have "switch_opt strerror h s name opt optarg =
        map_option (Pair False) (simple_cmd strerror h s (DBUS_C_PING h) ''ping'' ''Ping'')"
      by (simp add: switch_opt_def handle_cmd_ping_def)
    then show ?thesis by (simp only: simple)
  next
    case 2
    then have "switch_opt strerror h s name opt optarg =
        map_option (Pair False) (handle_cmd_status strerror h s)"
      by (simp add: switch_opt_def)
    then show ?thesis by (simp only: status)
  next
    case 3
    then have "switch_opt strerror h s name opt optarg =
        map_option (Pair False) (simple_cmd strerror h s (DBUS_C_RESET h) ''reset'' ''Reset'')"
      by (auto simp: switch_opt_def handle_cmd_reset_def)
    then show ?thesis by (simp only: simple)
  next
    case 4
    then have "switch_opt strerror h s name opt optarg =
        map_option (Pair False) (simple_cmd strerror h s (DBUS_C_SUSPEND h) ''suspend'' ''Suspend'')"
      by (simp add: switch_opt_def handle_cmd_suspend_def)
    then show ?thesis by (simp only: simple)
  next
    case 5
    then have "switch_opt strerror h s name opt optarg =
        map_option (Pair False) (handle_cmd_resume strerror h s optarg)"
      by (simp add: switch_opt_def)
    then show ?thesis by (simp only: resume)
  next
    case 6
    then have "switch_opt strerror h s name opt optarg =
        map_option (Pair False)
          (simple_cmd strerror h s (DBUS_C_MODIFIED h) ''flash modified'' ''Flash Modified'')"
      by (simp add: switch_opt_def handle_cmd_modified_def)
    then show ?thesis by (simp only: simple)
  next
    case 7
    then have "switch_opt strerror h s name opt optarg =
        Some (False, \<lparr> r_rc = 0, r_out = ''MBOX Control V1.00'' @ nl, r_err = [], r_trace = [] \<rparr>)"
      by (simp add: switch_opt_def)
    then show ?thesis by (simp only: plain)
  next
    case 8
    then have "switch_opt strerror h s name opt optarg =
        Some (True, \<lparr> r_rc = 0, r_out = USAGE name, r_err = [], r_trace = [] \<rparr>)"
      by (simp add: switch_opt_def)
    then show ?thesis by (simp only: plain)
  qed
qed

lemma getopt_loop_trace:
  "\<exists>e t. getopt_loop strerror h ss name i acc opts = Some e
     \<and> r_trace (run_of e) = r_trace acc @ t \<and> list_all exchange_op t"
proof (induction opts arbitrary: i acc)
  case Nil
  show ?case by simp
next
  case (Cons o1 opts)
  obtain opt optarg where o1: "o1 = (opt, optarg)" by (cases o1)
  obtain e r where sw: "switch_opt strerror h (ss i) name opt optarg = Some (e, r)"
    and tr: "list_all exchange_op (r_trace r)"
    using switch_opt_returns by blast
  show ?case
  proof (cases e)
    case True
    with sw tr o1 show ?thesis by (simp add: and_then_def)
  next
    case False
    from Cons.IH [of "Suc i" "and_then acc r"]
    obtain e' t where "getopt_loop strerror h ss name (Suc i) (and_then acc r) opts = Some e'"
      and "r_trace (run_of e') = r_trace (and_then acc r) @ t" and "list_all exchange_op t"
      by blast
    with False sw tr o1 show ?thesis by (simp add: and_then_def)
  qed
qed

lemma main_trace:
  "\<exists>r t. main strerror h open_rc ss name opts = Some r
     \<and> r_trace r = Bus_default_system # t \<and> list_all exchange_op t"
proof (cases "open_rc < 0")
  case True
  then show ?thesis by (simp add: main_def init_dbus_dev_def)
next
  case False
  obtain e t where
    "getopt_loop strerror h ss name 0 ((init_dbus_dev strerror open_rc)\<lparr>r_rc := - 1\<rparr>) opts = Some e"
    and "r_trace (run_of e) = r_trace ((init_dbus_dev strerror open_rc)\<lparr>r_rc := - 1\<rparr>) @ t"
    and "list_all exchange_op t"
    using getopt_loop_trace by blast
  with False show ?thesis
    by (cases e) (simp_all add: main_def parse_cmdline_def init_dbus_dev_def)
qed

lemma main_single:
  assumes "0 \<le> open_rc" and "switch_opt strerror h (ss 0) name opt optarg = Some (e, r)"
  shows "main strerror h open_rc ss name [(opt, optarg)] =
    Some \<lparr> r_rc = r_rc r, r_out = r_out r, r_err = r_err r,
           r_trace = Bus_default_system # r_trace r \<rparr>"
  using assms by (simp add: main_def parse_cmdline_def init_dbus_dev_def and_then_def)

text \<open>
  A command line with one option: what \<^verbatim>\<open>main\<close> returns is what the branch of that option
  sets. The branches of the options that reach \<^verbatim>\<open>send_dbus_msg\<close> end in one of the three
  ways of the exchange.
\<close>

lemma switch_opt_status:
  "switch_opt strerror h s name (CHR ''s'') optarg =
     map_option (Pair False) (handle_cmd_status strerror h s)"
  by (simp add: switch_opt_def)

lemma switch_opt_simple:
  assumes "no_arg_command opt" and "opt \<noteq> CHR ''s''"
  shows "\<exists>c w l. switch_opt strerror h s name opt optarg =
    map_option (Pair False) (simple_cmd strerror h s c w l)"
proof -
  from assms consider "opt = CHR ''p''" | "opt = CHR ''r'' \<or> opt = CHR ''f''"
    | "opt = CHR ''u''" | "opt = CHR ''m''"
    by (auto simp: no_arg_command_def)
  then show ?thesis
  proof cases
    case 1
    then have "switch_opt strerror h s name opt optarg =
        map_option (Pair False) (simple_cmd strerror h s (DBUS_C_PING h) ''ping'' ''Ping'')"
      by (simp add: switch_opt_def handle_cmd_ping_def)
    then show ?thesis by blast
  next
    case 2
    then have "switch_opt strerror h s name opt optarg =
        map_option (Pair False) (simple_cmd strerror h s (DBUS_C_RESET h) ''reset'' ''Reset'')"
      by (auto simp: switch_opt_def handle_cmd_reset_def)
    then show ?thesis by blast
  next
    case 3
    then have "switch_opt strerror h s name opt optarg =
        map_option (Pair False)
          (simple_cmd strerror h s (DBUS_C_SUSPEND h) ''suspend'' ''Suspend'')"
      by (simp add: switch_opt_def handle_cmd_suspend_def)
    then show ?thesis by blast
  next
    case 4
    then have "switch_opt strerror h s name opt optarg =
        map_option (Pair False)
          (simple_cmd strerror h s (DBUS_C_MODIFIED h) ''flash modified'' ''Flash Modified'')"
      by (simp add: switch_opt_def handle_cmd_modified_def)
    then show ?thesis by blast
  qed
qed

lemma switch_opt_failed:
  assumes "no_arg_command opt" and "\<not> bus_ok s"
  shows "\<exists>e q. switch_opt strerror h s name opt optarg = Some (e, q) \<and> r_rc q < 0"
proof (cases "opt = CHR ''s''")
  case True
  with status_failed [OF assms(2), of strerror h] show ?thesis
    by (auto simp: switch_opt_status)
next
  case False
  from switch_opt_simple [OF assms(1) False] obtain c w l where
    "switch_opt strerror h s name opt optarg =
       map_option (Pair False) (simple_cmd strerror h s c w l)"
    by blast
  with simple_cmd_failed [OF assms(2), of strerror h c w l] show ?thesis by auto
qed

lemma switch_opt_short:
  assumes "no_arg_command opt" and "bus_ok s" and "length (reply_args s) < expected_args opt"
    and "0 < E_DBUS_INTERNAL h"
  shows "\<exists>e q. switch_opt strerror h s name opt optarg = Some (e, q)
    \<and> r_rc q = - E_DBUS_INTERNAL h"
proof -
  from assms(3) have s: "opt = CHR ''s''" and "reply_args s = []"
    by (auto simp: expected_args_def split: if_splits)
  with status_short [OF assms(2) _ assms(4), of strerror] show ?thesis
    by (auto simp: switch_opt_status)
qed

lemma switch_opt_complete:
  assumes "no_arg_command opt" and "bus_ok s" and "expected_args opt \<le> length (reply_args s)"
  shows "\<exists>e q. switch_opt strerror h s name opt optarg = Some (e, q)
    \<and> r_rc q = - uint (reply_cmd s) \<and> sends_request (r_trace q)"
proof (cases "opt = CHR ''s''")
  case True
  with assms(3) obtain b bs where b: "reply_args s = b # bs"
    by (cases "reply_args s") (auto simp: expected_args_def)
  show ?thesis
  proof (cases "uint (reply_cmd s) = DBUS_SUCCESS h")
    case True
    from status_complete [OF assms(2) b True, of strerror] \<open>opt = CHR ''s''\<close>
    show ?thesis by (auto simp: switch_opt_status sends_request_def)
  next
    case False
    from b have "reply_args s \<noteq> []" by simp
    from status_daemon_error [OF assms(2) this False, of strerror] \<open>opt = CHR ''s''\<close>
    show ?thesis by (auto simp: switch_opt_status sends_request_def)
  qed
next
  case False
  from switch_opt_simple [OF assms(1) False] obtain c w l where
    "switch_opt strerror h s name opt optarg =
       map_option (Pair False) (simple_cmd strerror h s c w l)"
    by blast
  with simple_cmd_complete [OF assms(2), of strerror h c w l] show ?thesis
    by (auto simp: sends_request_def)
qed

lemma main_init_failed:
  assumes "open_rc < 0"
  shows "main strerror h open_rc ss name opts =
    Some \<lparr> r_rc = open_rc, r_out = [],
           r_err = ''Failed to connect to the system bus: '' @ strerror (- open_rc) @ nl
             @ ''Failed to init dbus'' @ nl,
           r_trace = [Bus_default_system] \<rparr>"
  using assms by (simp add: main_def init_dbus_dev_def)

text \<open>The definitions a concrete run is computed with.\<close>

lemmas run_defs =
  main_def parse_cmdline_def init_dbus_dev_def switch_opt_def and_then_def
  handle_cmd_ping_def handle_cmd_status_def handle_cmd_reset_def handle_cmd_suspend_def
  handle_cmd_resume_def handle_cmd_modified_def simple_cmd_def neg_cmd_def parse_error_def
  send_dbus_msg_def send_out_def memcpy_def zero_msg_def mboxd_h_def replying_def bus_ok_def

text \<open>
  Longer command lines. The loop runs through options whose branch ends in \<^verbatim>\<open>break\<close> and
  \<^verbatim>\<open>rc\<close> is overwritten by each, so the value \<^verbatim>\<open>main\<close> returns is the one set by the last
  option handled: the last of the command line, or the first that exits.
\<close>

lemma switch_opt_continues:
  assumes "continues opt" and "switch_opt strerror h s name opt optarg = Some (e, q)"
  shows "\<not> e"
  using assms by (auto simp: switch_opt_def continues_def split: if_splits)

lemma getopt_loop_prefix:
  assumes "list_all (\<lambda>x. continues (fst x)) pre"
  shows "\<exists>acc'. getopt_loop strerror h ss name i acc (pre @ rest) =
    getopt_loop strerror h ss name (i + length pre) acc' rest"
  using assms
proof (induction pre arbitrary: i acc)
  case Nil
  show ?case by auto
next
  case (Cons o1 pre)
  obtain opt optarg where o1: "o1 = (opt, optarg)" by (cases o1)
  obtain e q where sw: "switch_opt strerror h (ss i) name opt optarg = Some (e, q)"
    using switch_opt_returns by blast
  from Cons.prems o1 have "continues opt" by simp
  from switch_opt_continues [OF this sw] have e: "\<not> e" .
  from Cons.prems have "list_all (\<lambda>x. continues (fst x)) pre" by simp
  from Cons.IH [OF this, of "Suc i" "and_then acc q"]
  obtain acc' where "getopt_loop strerror h ss name (Suc i) (and_then acc q) (pre @ rest) =
      getopt_loop strerror h ss name (Suc i + length pre) acc' rest"
    by blast
  with o1 sw e show ?case by auto
qed

lemma main_last:
  assumes "0 \<le> open_rc" and "list_all (\<lambda>x. continues (fst x)) pre"
    and "switch_opt strerror h (ss (length pre)) name opt optarg = Some (e, q)"
    and "e \<or> rest = []"
  shows "\<exists>acc. main strerror h open_rc ss name (pre @ (opt, optarg) # rest) =
    Some (and_then acc q)"
proof -
  let ?init = "(init_dbus_dev strerror open_rc)\<lparr>r_rc := - 1\<rparr>"
  from getopt_loop_prefix [OF assms(2), of strerror h ss name 0 ?init "(opt, optarg) # rest"]
  obtain acc where "getopt_loop strerror h ss name 0 ?init (pre @ (opt, optarg) # rest) =
      getopt_loop strerror h ss name (length pre) acc ((opt, optarg) # rest)"
    by auto
  with assms(1,3,4) have "main strerror h open_rc ss name (pre @ (opt, optarg) # rest) =
      Some (and_then acc q)"
    by (auto simp: main_def parse_cmdline_def init_dbus_dev_def)
  then show ?thesis by blast
qed

lemma and_then_last:
  "r_rc (and_then acc q) = r_rc q"
  "sends_request (r_trace q) \<Longrightarrow> sends_request (r_trace (and_then acc q))"
  by (simp_all add: and_then_def sends_request_def)

lemma main_no_option:
  assumes "0 \<le> open_rc"
  shows "main strerror h open_rc ss name [] =
    Some \<lparr> r_rc = - 1, r_out = [], r_err = [], r_trace = [Bus_default_system] \<rparr>"
  using assms by (simp add: main_def parse_cmdline_def init_dbus_dev_def)

lemma switch_opt_version:
  "switch_opt strerror h s name (CHR ''v'') optarg =
     Some (False, \<lparr> r_rc = 0, r_out = ''MBOX Control V1.00'' @ nl, r_err = [], r_trace = [] \<rparr>)"
  by (simp add: switch_opt_def)

lemma switch_opt_help:
  "switch_opt strerror h s name (CHR ''h'') optarg =
     Some (True, \<lparr> r_rc = 0, r_out = USAGE name, r_err = [], r_trace = [] \<rparr>)"
  by (simp add: switch_opt_def)

section \<open>The claims\<close>

text \<open>
  C4. The error taxonomy is total over the integer status values: each of the five known
  values (Success, InternalError, InvalidRequest, RejectedByDaemon, HardwareError) is
  mapped to its documented phrase, and every value outside the known set is mapped to
  the Unknown-Error phrase. The known values are the labels of the \<^verbatim>\<open>switch\<close>, which C
  requires to be distinct.
\<close>

theorem parse_error_total:
  "distinct (status_labels h) \<Longrightarrow>
     parse_error h (DBUS_SUCCESS h) = ''Success''
     \<and> parse_error h (E_DBUS_INTERNAL h) = ''Failed - Internal Error''
     \<and> parse_error h (E_DBUS_INVAL h) = ''Failed - Invalid Command or Request''
     \<and> parse_error h (E_DBUS_REJECTED h) = ''Failed - Request Rejected by Daemon''
     \<and> parse_error h (E_DBUS_HARDWARE h) = ''Failed - BMC Hardware Error''
     \<and> (v \<notin> set (status_labels h) \<longrightarrow> parse_error h v = ''Failed - Unknown Error'')"
  by (auto simp: parse_error_def status_labels_def)

theorem parse_error_total_witness:
  "distinct (status_labels mboxd_h)
     \<and> parse_error mboxd_h 0 = ''Success''
     \<and> parse_error mboxd_h 1 = ''Failed - Internal Error''
     \<and> parse_error mboxd_h 2 = ''Failed - Invalid Command or Request''
     \<and> parse_error mboxd_h 3 = ''Failed - Request Rejected by Daemon''
     \<and> parse_error mboxd_h 4 = ''Failed - BMC Hardware Error''
     \<and> 77 \<notin> set (status_labels mboxd_h)
     \<and> parse_error mboxd_h 77 = ''Failed - Unknown Error''"
  using parse_error_total [of mboxd_h 77]
  by (simp add: mboxd_h_def status_labels_def)

text \<open>
  C1. When the reply has been read and its argument buffer is strictly shorter than the
  declared expected length (which is then at least 1), the exchange fails with the
  client's \<^verbatim>\<open>-E_DBUS_INTERNAL\<close> and the text "Command returned insufficient response
  args": a negative code whenever the constant is positive, so neither success nor a
  daemon status, and the caller's response buffer keeps its bytes.
\<close>

theorem send_dbus_msg_insufficient:
  assumes "bus_ok s" and "num_args msg \<le> length (args msg)"
    and "length (reply_args s) < num_args resp" and "0 < E_DBUS_INTERNAL h"
  shows "\<exists>x. send_dbus_msg strerror h s msg resp = Some x
     \<and> x_rc x = - E_DBUS_INTERNAL h \<and> x_rc x < 0
     \<and> x_err x = ''Command returned insufficient response args'' @ nl
     \<and> args (x_resp x) = args resp"
  using send_dbus_msg_short [OF assms(1-3), of strerror h] assms(4)
  by (simp add: send_out_def)

theorem send_dbus_msg_insufficient_witness:
  "bus_ok (replying 0 [7])
   \<and> num_args zero_msg \<le> length (args zero_msg)
   \<and> length (reply_args (replying 0 [7])) < num_args (zero_msg\<lparr>num_args := 2, args := [0, 0]\<rparr>)
   \<and> 0 < E_DBUS_INTERNAL mboxd_h
   \<and> map_option (\<lambda>x. (x_rc x, args (x_resp x)))
        (send_dbus_msg (\<lambda>e. []) mboxd_h (replying 0 [7]) zero_msg
           (zero_msg\<lparr>num_args := 2, args := [0, 0]\<rparr>)) = Some (- 1, [0, 0])"
  using send_dbus_msg_insufficient [of "replying 0 [7]" zero_msg
      "zero_msg\<lparr>num_args := 2, args := [0, 0]\<rparr>" mboxd_h "\<lambda>e. []"]
  by (auto simp: bus_ok_def replying_def zero_msg_def mboxd_h_def)

text \<open>
  C5. When the reply's argument buffer is at least as long as the declared expected
  length \<open>n\<close>, the exchange succeeds and copies exactly the first \<open>n\<close> bytes of the reply
  into the caller's response buffer: the buffer's first \<open>n\<close> bytes are the reply's, the
  bytes after them and the buffer's size are as before, and the result is the one the
  reply cut down to its first \<open>n\<close> bytes gives, so the trailing bytes reach nothing the
  caller sees.
\<close>

theorem send_dbus_msg_copies_prefix:
  assumes "bus_ok s" and "num_args msg \<le> length (args msg)"
    and "num_args resp \<le> length (reply_args s)" and "num_args resp \<le> length (args resp)"
  shows "\<exists>x. send_dbus_msg strerror h s msg resp = Some x
     \<and> x_rc x = 0 \<and> cmd (x_resp x) = reply_cmd s
     \<and> take (num_args resp) (args (x_resp x)) = take (num_args resp) (reply_args s)
     \<and> drop (num_args resp) (args (x_resp x)) = drop (num_args resp) (args resp)
     \<and> length (args (x_resp x)) = length (args resp)
     \<and> send_dbus_msg strerror h (s\<lparr>reply_args := take (num_args resp) (reply_args s)\<rparr>) msg resp
         = Some x"
proof -
  let ?s = "s\<lparr>reply_args := take (num_args resp) (reply_args s)\<rparr>"
  have ok: "bus_ok ?s" using assms(1) by (simp add: bus_ok_def)
  have len: "num_args resp \<le> length (reply_args ?s)" using assms(3) by simp
  show ?thesis
    using send_dbus_msg_complete [OF assms, of strerror h]
      send_dbus_msg_complete [OF ok assms(2) len assms(4), of strerror h] assms(3,4)
    by (simp add: send_out_def)
qed

theorem send_dbus_msg_copies_prefix_witness:
  "bus_ok (replying 0 [1, 2, 3])
   \<and> num_args zero_msg \<le> length (args zero_msg)
   \<and> num_args (zero_msg\<lparr>num_args := 2, args := [9, 9, 9]\<rparr>) \<le> length (reply_args (replying 0 [1, 2, 3]))
   \<and> num_args (zero_msg\<lparr>num_args := 2, args := [9, 9, 9]\<rparr>)
        \<le> length (args (zero_msg\<lparr>num_args := 2, args := [9, 9, 9]\<rparr>))
   \<and> map_option (\<lambda>x. (x_rc x, args (x_resp x)))
        (send_dbus_msg (\<lambda>e. []) mboxd_h (replying 0 [1, 2, 3]) zero_msg
           (zero_msg\<lparr>num_args := 2, args := [9, 9, 9]\<rparr>)) = Some (0, [1, 2, 9])"
  using send_dbus_msg_copies_prefix [of "replying 0 [1, 2, 3]" zero_msg
      "zero_msg\<lparr>num_args := 2, args := [9, 9, 9]\<rparr>" "\<lambda>e. []" mboxd_h]
  by (simp add: bus_ok_def replying_def zero_msg_def send_dbus_msg_def memcpy_def send_out_def)

text \<open>
  C2. For every argument other than the strings "0" and "1", the null pointer included,
  the resume handler returns \<^verbatim>\<open>-E_DBUS_INVAL\<close> and has made no library call, so no request
  was sent.
\<close>

theorem resume_rejects_other:
  assumes "arg \<noteq> Some ''0''" and "arg \<noteq> Some ''1''"
  shows "\<exists>r. handle_cmd_resume strerror h s arg = Some r
     \<and> r_rc r = - E_DBUS_INVAL h \<and> \<not> sends_request (r_trace r) \<and> r_trace r = []"
  by (simp add: resume_inval sends_request_def)

theorem resume_rejects_other_witness:
  "Some ''2'' \<noteq> Some ''0'' \<and> Some ''2'' \<noteq> Some ''1''
   \<and> (None :: string option) \<noteq> Some ''0'' \<and> (None :: string option) \<noteq> Some ''1''
   \<and> map_option (\<lambda>r. (r_rc r, r_trace r))
        (handle_cmd_resume (\<lambda>e. []) mboxd_h (replying 0 []) (Some ''2'')) = Some (- 2, [])
   \<and> map_option (\<lambda>r. (r_rc r, r_trace r))
        (handle_cmd_resume (\<lambda>e. []) mboxd_h (replying 0 []) None) = Some (- 2, [])"
  using resume_rejects_other [of "Some ''2''" "\<lambda>e. []" mboxd_h "replying 0 []"]
    resume_rejects_other [of None "\<lambda>e. []" mboxd_h "replying 0 []"]
  by (auto simp: mboxd_h_def)

text \<open>
  C3. For every argument, "0" and "1" included, the resume handler returns
  \<^verbatim>\<open>-E_DBUS_INVAL\<close> without a library call; and no run of \<^verbatim>\<open>main\<close>, whatever the command
  line and the behaviour of the bus, transmits a resume request (the resume command with
  its one argument byte).
\<close>

theorem resume_never_sent:
  "handle_cmd_resume strerror h s arg =
     Some \<lparr> r_rc = - E_DBUS_INVAL h, r_out = [], r_err = [], r_trace = [] \<rparr>
   \<and> (\<exists>r. main strerror h open_rc ss name opts = Some r
        \<and> Bus_call (word_of_int (DBUS_C_RESUME h)) [b] \<notin> set (r_trace r))"
proof -
  obtain r t where r: "main strerror h open_rc ss name opts = Some r"
    and t: "r_trace r = Bus_default_system # t" "list_all exchange_op t"
    using main_trace by blast
  have "Bus_call (word_of_int (DBUS_C_RESUME h)) [b] \<notin> set t"
  proof
    assume "Bus_call (word_of_int (DBUS_C_RESUME h)) [b] \<in> set t"
    with t(2) show False by (auto simp: list_all_iff)
  qed
  with r t(1) show ?thesis by (simp add: resume_inval)
qed

theorem resume_never_sent_witness:
  "handle_cmd_resume (\<lambda>e. []) mboxd_h (replying 0 []) (Some ''1'') =
     Some \<lparr> r_rc = - 2, r_out = [], r_err = [], r_trace = [] \<rparr>
   \<and> handle_cmd_resume (\<lambda>e. []) mboxd_h (replying 0 []) (Some ''0'') =
     Some \<lparr> r_rc = - 2, r_out = [], r_err = [], r_trace = [] \<rparr>"
  using resume_never_sent [of "\<lambda>e. []" mboxd_h "replying 0 []" "Some ''1''" 0 "\<lambda>i. replying 0 []" "''mboxctl''" "[]" 1]
    resume_never_sent [of "\<lambda>e. []" mboxd_h "replying 0 []" "Some ''0''" 0 "\<lambda>i. replying 0 []" "''mboxctl''" "[]" 1]
  by (simp add: mboxd_h_def)

text \<open>
  C6. When the connection is set up, the exchange of the status command succeeds and the
  daemon replies with status Success (the byte 0) and a payload of one byte, the process
  ends with code 0 and nothing on the error stream; for the payload byte 0 (Active) the
  output is "Daemon Status: Active", and for the payload byte 1 it is
  "Daemon Status: Suspended".
\<close>

theorem status_reports_state:
  assumes "0 \<le> open_rc" and "bus_ok (ss 0)" and "DBUS_SUCCESS h = 0" and "STATUS_ACTIVE h = 0"
    and "reply_cmd (ss 0) = 0" and "reply_args (ss 0) = [b]"
  shows "\<exists>r. main strerror h open_rc ss name [(CHR ''s'', optarg)] = Some r
     \<and> r_rc r = 0 \<and> r_err r = []
     \<and> (b = 0 \<longrightarrow> r_out r = ''Daemon Status: Active'' @ nl)
     \<and> (b = 1 \<longrightarrow> r_out r = ''Daemon Status: Suspended'' @ nl)"
proof -
  from assms(3,5) have "uint (reply_cmd (ss 0)) = DBUS_SUCCESS h" by simp
  from status_complete [OF assms(2) assms(6) this, of strerror] assms(4,5)
  have "switch_opt strerror h (ss 0) name (CHR ''s'') optarg =
      Some (False, \<lparr> r_rc = 0,
        r_out = ''Daemon Status: '' @ (if uint b = 0 then ''Active'' else ''Suspended'') @ nl,
        r_err = [],
        r_trace = [Message_new_method_call, Message_append (word_of_int (DBUS_C_STATUS h)),
          Message_append_array [], Bus_call (word_of_int (DBUS_C_STATUS h)) [], Message_read,
          Message_read_array, Error_free, Message_unref True, Message_unref True] \<rparr>)"
    by (simp add: switch_opt_status)
  from main_single [of open_rc strerror h ss name "CHR ''s''" optarg, OF assms(1) this]
  show ?thesis by auto
qed

theorem status_reports_state_witness:
  "(0::int) \<le> 0 \<and> bus_ok (replying 0 [0]) \<and> bus_ok (replying 0 [1])
   \<and> DBUS_SUCCESS mboxd_h = 0 \<and> STATUS_ACTIVE mboxd_h = 0
   \<and> map_option (\<lambda>r. (r_rc r, r_out r))
        (main (\<lambda>e. []) mboxd_h 0 (\<lambda>i. replying 0 [0]) ''mboxctl'' [(CHR ''s'', None)])
       = Some (0, ''Daemon Status: Active'' @ nl)
   \<and> map_option (\<lambda>r. (r_rc r, r_out r))
        (main (\<lambda>e. []) mboxd_h 0 (\<lambda>i. replying 0 [1]) ''mboxctl'' [(CHR ''s'', None)])
       = Some (0, ''Daemon Status: Suspended'' @ nl)"
  using status_reports_state [of 0 "\<lambda>i. replying 0 [0]" mboxd_h 0 "\<lambda>e. []" "''mboxctl''" None]
    status_reports_state [of 0 "\<lambda>i. replying 0 [1]" mboxd_h 1 "\<lambda>e. []" "''mboxctl''" None]
  by (simp add: run_defs)

text \<open>
  C10. When the status exchange succeeds with status Success, the handler prints
  "Daemon Status: Suspended" for every first payload byte other than \<^verbatim>\<open>STATUS_ACTIVE\<close>, and
  "Daemon Status: Active" for that one; whatever the byte, nothing is written to the
  error stream and the code returned is that of Success.
\<close>

theorem status_suspended_unless_active:
  assumes "bus_ok s" and "uint (reply_cmd s) = DBUS_SUCCESS h" and "reply_args s = b # bs"
  shows "\<exists>r. handle_cmd_status strerror h s = Some r
     \<and> r_rc r = - DBUS_SUCCESS h \<and> r_err r = []
     \<and> (uint b \<noteq> STATUS_ACTIVE h \<longrightarrow> r_out r = ''Daemon Status: Suspended'' @ nl)
     \<and> (uint b = STATUS_ACTIVE h \<longrightarrow> r_out r = ''Daemon Status: Active'' @ nl)"
  using status_complete [OF assms(1) assms(3) assms(2), of strerror] assms(2) by simp

theorem status_suspended_unless_active_witness:
  "bus_ok (replying 0 [2]) \<and> uint (reply_cmd (replying 0 [2])) = DBUS_SUCCESS mboxd_h
   \<and> uint (2 :: byte) \<noteq> STATUS_ACTIVE mboxd_h
   \<and> map_option r_out (handle_cmd_status (\<lambda>e. []) mboxd_h (replying 0 [2]))
       = Some (''Daemon Status: Suspended'' @ nl)
   \<and> map_option r_out (handle_cmd_status (\<lambda>e. []) mboxd_h (replying 0 [255, 0]))
       = Some (''Daemon Status: Suspended'' @ nl)"
  using status_suspended_unless_active [of "replying 0 [2]" mboxd_h 2 "[]" "\<lambda>e. []"]
    status_suspended_unless_active [of "replying 0 [255, 0]" mboxd_h 255 "[0]" "\<lambda>e. []"]
  by (simp add: run_defs)

text \<open>
  C7. The claim: resume with the argument "1" sends a request whose argument byte is
  FlashModified and, on the reply RejectedByDaemon, ends with the negated code of
  RejectedByDaemon and prints "Failed - Request Rejected by Daemon". The run of the
  program at this input, against a daemon that would reply RejectedByDaemon (3): the
  guard sends it to \<^verbatim>\<open>out\<close> with \<^verbatim>\<open>-E_DBUS_INVAL\<close> (\<open>-2\<close>), the only library call is the
  opening of the bus, and nothing is printed.
\<close>

theorem resume_modified_rejected_run:
  "main (\<lambda>e. []) mboxd_h 0 (\<lambda>i. replying 3 []) ''mboxctl'' [(CHR ''e'', Some ''1'')] =
     Some \<lparr> r_rc = - 2, r_out = [], r_err = [], r_trace = [Bus_default_system] \<rparr>"
  by (simp add: run_defs)

text \<open>
  C8, as amended. The code \<^verbatim>\<open>main\<close> returns is the one set by the last option handled.
  Let the connection be set up, the earlier options be known ones other than help, and the
  last option be a command without argument (ping, status, reset, point-to-flash,
  suspend, flash-modified). When every library call of its exchange succeeds and the
  reply carries at least the number of argument bytes the handler expects, the request
  has been sent and the code is the negation of the daemon's status byte for it (so 0
  exactly for the status byte 0); when a library call of that exchange fails the code is
  negative; when the reply is shorter than expected it is \<^verbatim>\<open>-E_DBUS_INTERNAL\<close>. When the
  connection cannot be set up, the code is the negative one of \<^verbatim>\<open>sd_bus_default_system\<close>
  and nothing is sent. With version as the last option the code is 0, at help the
  process exits with 0, and without any option the code is \<open>-1\<close>.
\<close>

theorem main_exit_code:
  "(0 \<le> open_rc \<longrightarrow> map_option r_rc (main strerror h open_rc ss name []) = Some (- 1))
   \<and> (\<exists>r. main strerror h open_rc ss name (pre @ (opt, optarg) # rest) = Some r
     \<and> (open_rc < 0 \<longrightarrow> r_rc r = open_rc \<and> \<not> sends_request (r_trace r))
     \<and> (0 \<le> open_rc \<and> list_all (\<lambda>x. continues (fst x)) pre \<and> rest = []
          \<and> no_arg_command opt \<and> \<not> bus_ok (ss (length pre))
          \<longrightarrow> r_rc r < 0)
     \<and> (0 \<le> open_rc \<and> list_all (\<lambda>x. continues (fst x)) pre \<and> rest = []
          \<and> no_arg_command opt \<and> bus_ok (ss (length pre))
          \<and> length (reply_args (ss (length pre))) < expected_args opt
          \<and> 0 < E_DBUS_INTERNAL h
          \<longrightarrow> r_rc r = - E_DBUS_INTERNAL h)
     \<and> (0 \<le> open_rc \<and> list_all (\<lambda>x. continues (fst x)) pre \<and> rest = []
          \<and> no_arg_command opt \<and> bus_ok (ss (length pre))
          \<and> expected_args opt \<le> length (reply_args (ss (length pre)))
          \<longrightarrow> r_rc r = - uint (reply_cmd (ss (length pre))) \<and> sends_request (r_trace r))
     \<and> (0 \<le> open_rc \<and> list_all (\<lambda>x. continues (fst x)) pre \<and> rest = []
          \<and> opt = CHR ''v''
          \<longrightarrow> r_rc r = 0)
     \<and> (0 \<le> open_rc \<and> list_all (\<lambda>x. continues (fst x)) pre \<and> opt = CHR ''h''
          \<longrightarrow> r_rc r = 0))"
proof -
  let ?opts = "pre @ (opt, optarg) # rest"
  let ?s = "ss (length pre)"
  obtain r where r: "main strerror h open_rc ss name ?opts = Some r"
    using main_trace by blast
  have last: "r_rc r = r_rc q \<and> (sends_request (r_trace q) \<longrightarrow> sends_request (r_trace r))"
    if "0 \<le> open_rc" and "list_all (\<lambda>x. continues (fst x)) pre"
      and "switch_opt strerror h ?s name opt optarg = Some (e, q)" and "e \<or> rest = []"
    for e q
  proof -
    from main_last [of open_rc pre strerror h ss name opt optarg e q rest, OF that] r
    obtain acc where "r = and_then acc q" by auto
    then show ?thesis by (simp add: and_then_last)
  qed
  have c0: "map_option r_rc (main strerror h open_rc ss name []) = Some (- 1)"
    if "0 \<le> open_rc"
    by (simp add: main_no_option [OF that])
  have c1: "r_rc r = open_rc \<and> \<not> sends_request (r_trace r)" if "open_rc < 0"
    using main_init_failed [OF that, of strerror h ss name ?opts] r
    by (auto simp: sends_request_def)
  have c3: "r_rc r < 0"
    if "0 \<le> open_rc" and "list_all (\<lambda>x. continues (fst x)) pre" and "rest = []"
      and "no_arg_command opt" and "\<not> bus_ok ?s"
  proof -
    from switch_opt_failed [OF that(4,5), of strerror h name optarg]
    obtain e q where "switch_opt strerror h ?s name opt optarg = Some (e, q)" and "r_rc q < 0"
      by blast
    with last [OF that(1,2), of e q] that(3) show ?thesis by simp
  qed
  have c4: "r_rc r = - E_DBUS_INTERNAL h"
    if "0 \<le> open_rc" and "list_all (\<lambda>x. continues (fst x)) pre" and "rest = []"
      and "no_arg_command opt" and "bus_ok ?s"
      and "length (reply_args ?s) < expected_args opt" and "0 < E_DBUS_INTERNAL h"
  proof -
    from switch_opt_short [OF that(4-7), of strerror name optarg]
    obtain e q where "switch_opt strerror h ?s name opt optarg = Some (e, q)"
      and "r_rc q = - E_DBUS_INTERNAL h"
      by blast
    with last [OF that(1,2), of e q] that(3) show ?thesis by simp
  qed
  have c5: "r_rc r = - uint (reply_cmd ?s) \<and> sends_request (r_trace r)"
    if "0 \<le> open_rc" and "list_all (\<lambda>x. continues (fst x)) pre" and "rest = []"
      and "no_arg_command opt" and "bus_ok ?s"
      and "expected_args opt \<le> length (reply_args ?s)"
  proof -
    from switch_opt_complete [OF that(4-6), of strerror h name optarg]
    obtain e q where "switch_opt strerror h ?s name opt optarg = Some (e, q)"
      and "r_rc q = - uint (reply_cmd ?s)" and "sends_request (r_trace q)"
      by blast
    with last [OF that(1,2), of e q] that(3) show ?thesis by simp
  qed
  have c6: "r_rc r = 0"
    if "0 \<le> open_rc" and "list_all (\<lambda>x. continues (fst x)) pre" and "rest = []"
      and "opt = CHR ''v''"
    using last [OF that(1,2), of False] switch_opt_version [of strerror h ?s name optarg]
      that(3,4)
    by simp
  have c7: "r_rc r = 0"
    if "0 \<le> open_rc" and "list_all (\<lambda>x. continues (fst x)) pre" and "opt = CHR ''h''"
    using last [OF that(1,2), of True] switch_opt_help [of strerror h ?s name optarg] that(3)
    by simp
  let ?P = "\<lambda>r. main strerror h open_rc ss name ?opts = Some r
     \<and> (open_rc < 0 \<longrightarrow> r_rc r = open_rc \<and> \<not> sends_request (r_trace r))
     \<and> (0 \<le> open_rc \<and> list_all (\<lambda>x. continues (fst x)) pre \<and> rest = []
          \<and> no_arg_command opt \<and> \<not> bus_ok ?s
          \<longrightarrow> r_rc r < 0)
     \<and> (0 \<le> open_rc \<and> list_all (\<lambda>x. continues (fst x)) pre \<and> rest = []
          \<and> no_arg_command opt \<and> bus_ok ?s
          \<and> length (reply_args ?s) < expected_args opt
          \<and> 0 < E_DBUS_INTERNAL h
          \<longrightarrow> r_rc r = - E_DBUS_INTERNAL h)
     \<and> (0 \<le> open_rc \<and> list_all (\<lambda>x. continues (fst x)) pre \<and> rest = []
          \<and> no_arg_command opt \<and> bus_ok ?s
          \<and> expected_args opt \<le> length (reply_args ?s)
          \<longrightarrow> r_rc r = - uint (reply_cmd ?s) \<and> sends_request (r_trace r))
     \<and> (0 \<le> open_rc \<and> list_all (\<lambda>x. continues (fst x)) pre \<and> rest = []
          \<and> opt = CHR ''v''
          \<longrightarrow> r_rc r = 0)
     \<and> (0 \<le> open_rc \<and> list_all (\<lambda>x. continues (fst x)) pre \<and> opt = CHR ''h''
          \<longrightarrow> r_rc r = 0)"
  have "?P r"
    apply (intro conjI)
          apply (rule r)
         apply (rule impI, rule c1, assumption)
        apply (rule impI, rule c3; simp)
       apply (rule impI, rule c4; simp)
      apply (rule impI, rule c5; simp)
     apply (rule impI, rule c6; simp)
    apply (rule impI, rule c7; simp)
    done
  then have "\<exists>r. ?P r" by (rule exI)
  with c0 show ?thesis by simp
qed

theorem main_exit_code_witness:
  "(0::int) \<le> 0
   \<and> map_option r_rc (main (\<lambda>e. []) mboxd_h 0 (\<lambda>i. replying 0 []) ''mboxctl'' []) = Some (- 1)
   \<and> list_all (\<lambda>x. continues (fst x)) [(CHR ''u'', None :: string option)]
   \<and> no_arg_command (CHR ''p'') \<and> no_arg_command (CHR ''s'')
   \<and> bus_ok (replying 0 [])
   \<and> expected_args (CHR ''p'') \<le> length (reply_args (replying 0 []))
   \<and> map_option r_rc
        (main (\<lambda>e. []) mboxd_h 0 (\<lambda>i. if i = 0 then replying 3 [] else replying 0 [])
           ''mboxctl'' [(CHR ''u'', None), (CHR ''p'', None)])
       = Some 0
   \<and> map_option r_rc
        (main (\<lambda>e. []) mboxd_h 0 (\<lambda>i. if i = 0 then replying 0 [] else replying 3 [])
           ''mboxctl'' [(CHR ''u'', None), (CHR ''p'', None)])
       = Some (- 3)
   \<and> length (reply_args (replying 0 [])) < expected_args (CHR ''s'')
   \<and> 0 < E_DBUS_INTERNAL mboxd_h
   \<and> map_option r_rc
        (main (\<lambda>e. []) mboxd_h 0 (\<lambda>i. replying 0 []) ''mboxctl'' [(CHR ''s'', None)])
       = Some (- 1)
   \<and> \<not> bus_ok ((replying 0 [])\<lparr>call_rc := - 5\<rparr>)
   \<and> map_option r_rc
        (main (\<lambda>e. []) mboxd_h 0 (\<lambda>i. (replying 0 [])\<lparr>call_rc := - 5\<rparr>) ''mboxctl''
           [(CHR ''p'', None)])
       = Some (- 5)
   \<and> (- 111 :: int) < 0
   \<and> map_option r_rc
        (main (\<lambda>e. []) mboxd_h (- 111) (\<lambda>i. replying 0 []) ''mboxctl'' [(CHR ''p'', None)])
       = Some (- 111)
   \<and> map_option r_rc
        (main (\<lambda>e. []) mboxd_h 0 (\<lambda>i. replying 3 []) ''mboxctl''
           [(CHR ''p'', None), (CHR ''v'', None)])
       = Some 0
   \<and> map_option r_rc
        (main (\<lambda>e. []) mboxd_h 0 (\<lambda>i. replying 3 []) ''mboxctl''
           [(CHR ''h'', None), (CHR ''p'', None)])
       = Some 0"
  using
    main_exit_code [of 0 "\<lambda>e. []" mboxd_h "\<lambda>i. if i = 0 then replying 3 [] else replying 0 []"
      "''mboxctl''" "[(CHR ''u'', None)]" "CHR ''p''" None "[]"]
    main_exit_code [of 0 "\<lambda>e. []" mboxd_h "\<lambda>i. if i = 0 then replying 0 [] else replying 3 []"
      "''mboxctl''" "[(CHR ''u'', None)]" "CHR ''p''" None "[]"]
    main_exit_code [of 0 "\<lambda>e. []" mboxd_h "\<lambda>i. replying 0 []" "''mboxctl''" "[]" "CHR ''s''"
      None "[]"]
    main_exit_code [of 0 "\<lambda>e. []" mboxd_h "\<lambda>i. (replying 0 [])\<lparr>call_rc := - 5\<rparr>"
      "''mboxctl''" "[]" "CHR ''p''" None "[]"]
    main_exit_code [of "- 111" "\<lambda>e. []" mboxd_h "\<lambda>i. replying 0 []" "''mboxctl''" "[]"
      "CHR ''p''" None "[]"]
    main_exit_code [of 0 "\<lambda>e. []" mboxd_h "\<lambda>i. replying 3 []" "''mboxctl''"
      "[(CHR ''p'', None)]" "CHR ''v''" None "[]"]
    main_exit_code [of 0 "\<lambda>e. []" mboxd_h "\<lambda>i. replying 3 []" "''mboxctl''" "[]" "CHR ''h''"
      None "[(CHR ''p'', None)]"]
  by (simp add: run_defs no_arg_command_def expected_args_def continues_def)

text \<open>
  C8 as stated fails: the status request reaches the daemon, the daemon replies with
  status Success and no payload byte, and the code is \<open>-1\<close> (\<^verbatim>\<open>-E_DBUS_INTERNAL\<close>), not 0.
\<close>

theorem exit_code_counterexample:
  "reply_cmd (replying 0 []) = word_of_int (DBUS_SUCCESS mboxd_h)
   \<and> main (\<lambda>e. []) mboxd_h 0 (\<lambda>i. replying 0 []) ''mboxctl'' [(CHR ''s'', None)] =
       Some \<lparr> r_rc = - 1, r_out = [],
              r_err = ''Command returned insufficient response args'' @ nl
                @ ''Failed to send status command'' @ nl,
              r_trace = [Bus_default_system, Message_new_method_call, Message_append 1,
                Message_append_array [], Bus_call 1 [], Message_read, Message_read_array,
                Error_free, Message_unref True, Message_unref True] \<rparr>"
  by (simp add: run_defs)

text \<open>
  C9, as amended. The connection handle is acquired once, by the first library call of
  the run, and no run of \<^verbatim>\<open>main\<close> releases it: whatever the command line and the
  behaviour of the bus, the trace opens the bus once and holds no release of it. The
  handle is held until the process ends.
\<close>

theorem bus_never_released:
  "\<exists>r t. main strerror h open_rc ss name opts = Some r
     \<and> r_trace r = Bus_default_system # t \<and> Bus_default_system \<notin> set t
     \<and> \<not> releases_bus (r_trace r)"
proof -
  obtain r t where r: "main strerror h open_rc ss name opts = Some r"
    and t: "r_trace r = Bus_default_system # t" "list_all exchange_op t"
    using main_trace by blast
  have "Bus_default_system \<notin> set t" and "Bus_unref \<notin> set t"
    using t(2) by (auto simp: list_all_iff)
  with r t(1) show ?thesis by (simp add: releases_bus_def)
qed

theorem bus_never_released_witness:
  "map_option (\<lambda>r. releases_bus (r_trace r))
     (main (\<lambda>e. []) mboxd_h 0 (\<lambda>i. replying 0 [1]) ''mboxctl''
        [(CHR ''s'', None), (CHR ''e'', Some ''0''), (CHR ''x'', None)]) = Some False
   \<and> map_option (\<lambda>r. releases_bus (r_trace r))
     (main (\<lambda>e. []) mboxd_h (- 111) (\<lambda>i. replying 0 [1]) ''mboxctl'' [(CHR ''p'', None)])
       = Some False"
  using
    bus_never_released [of "\<lambda>e. []" mboxd_h 0 "\<lambda>i. replying 0 [1]" "''mboxctl''"
      "[(CHR ''s'', None), (CHR ''e'', Some ''0''), (CHR ''x'', None)]"]
    bus_never_released [of "\<lambda>e. []" mboxd_h "- 111" "\<lambda>i. replying 0 [1]" "''mboxctl''"
      "[(CHR ''p'', None)]"]
  by auto

text \<open>
  C9 as stated fails: a successful ping ends with the handle acquired and not released.
\<close>

theorem bus_release_counterexample:
  "main (\<lambda>e. []) mboxd_h 0 (\<lambda>i. replying 0 []) ''mboxctl'' [(CHR ''p'', None)] =
     Some \<lparr> r_rc = 0, r_out = ''Ping: Success'' @ nl, r_err = [],
            r_trace = [Bus_default_system, Message_new_method_call, Message_append 0,
              Message_append_array [], Bus_call 0 [], Message_read, Message_read_array,
              Error_free, Message_unref True, Message_unref True] \<rparr>
   \<and> \<not> releases_bus [Bus_default_system, Message_new_method_call, Message_append 0,
          Message_append_array [], Bus_call 0 [], Message_read, Message_read_array,
          Error_free, Message_unref True, Message_unref True]"
  by (simp add: run_defs releases_bus_def)

end
